theory Spec2Isabelle
  imports Complex_Main "HOL-Library.Sublist" "HOL-Library.Log_Nat"
begin

section \<open>The decision engine of the lavender backend\<close>

text \<open>
  A shallow embedding of \<^verbatim>\<open>src/lavender_backend/src/services/decisionEngine.js\<close>
  (class \<^verbatim>\<open>DecisionEngine\<close>). Every method is a HOL function of the same name.

  \<^item> A reading and a confidence are finite JavaScript numbers, values of type \<open>real\<close>;
    the source compares them with constants, which is exact. Where the source
    computes (the NPK estimate, the percentage of the confidence) the model computes
    in IEEE 754 double arithmetic, on the type \<open>number\<close>.
  \<^item> The readings object \<^verbatim>\<open>sensorData\<close> is the list of its own properties in the
    order of \<^verbatim>\<open>Object.keys\<close>, \<^verbatim>\<open>Object.values\<close> and \<^verbatim>\<open>Object.entries\<close>;
    a property read \<^verbatim>\<open>sensorData.k\<close> is \<open>map_of sensorData k\<close>, and \<open>None\<close> is
    \<^verbatim>\<open>undefined\<close>.
  \<^item> A string of the source that is plain ASCII is a \<open>string\<close>. A string with an emoji
    or an interpolated number is a list of fragments, so that no number formatting has
    to be modelled.
  \<^item> A field keeps its name in the source. Where several objects have a field of one
    name (\<^verbatim>\<open>message\<close>, \<^verbatim>\<open>confidence\<close>, \<^verbatim>\<open>icon\<close>), or the name is a constant of
    HOL (\<^verbatim>\<open>min\<close>, \<^verbatim>\<open>max\<close>), the name of the object is added as a suffix.
  \<^item> \<^verbatim>\<open>console.log\<close> is diagnostic tracing and is left out.
\<close>

subsection \<open>JavaScript numbers\<close>

text \<open>
  A JavaScript number is an IEEE 754 binary64 value: a finite double, an infinity or
  \<^verbatim>\<open>NaN\<close>. The two zeros are one value here: the source never divides, and every
  other operation it uses gives the same result for both.
\<close>

datatype number = Finite real | PosInfinity | NegInfinity | NaN

definition pow2 :: "int \<Rightarrow> real" where
  "pow2 k = (if 0 \<le> k then 2 ^ nat k else 1 / 2 ^ nat (- k))"

text \<open>
  The binary exponent of a real \<open>x\<close> other than 0: the \<open>e\<close> with
  \<open>2 ^ e \<le> |x| < 2 ^ (e + 1)\<close>, computed from the bit length of an integer.
\<close>

definition exponent :: "real \<Rightarrow> int" where
  "exponent x =
     (if 1 \<le> \<bar>x\<bar> then bitlen \<lfloor>\<bar>x\<bar>\<rfloor> - 1 else - bitlen (\<lceil>1 / \<bar>x\<bar>\<rceil> - 1))"

text \<open>
  The distance between neighbouring doubles at \<open>x\<close>: 53 significant bits, and below
  the least normal exponent \<open>- 1022\<close> the fixed distance of the subnormal numbers.
\<close>

definition ulp :: "real \<Rightarrow> real" where
  "ulp x = pow2 (max (exponent x) (- 1022) - 52)"

definition roundHalfEven :: "real \<Rightarrow> int" where
  "roundHalfEven q =
     (let f = \<lfloor>q\<rfloor>; d = q - of_int f
      in if d < 1 / 2 then f else if 1 / 2 < d then f + 1 else if even f then f else f + 1)"

definition nearest :: "real \<Rightarrow> real" where
  "nearest x = of_int (roundHalfEven (x / ulp x)) * ulp x"

text \<open>
  Rounding of an exact result, to nearest with ties to even. The greatest double is
  \<open>2 ^ 1024 - 2 ^ 971\<close>; from half a step above it the result is an infinity.
\<close>

definition roundToDouble :: "real \<Rightarrow> number" where
  "roundToDouble x =
     (if 2 ^ 1024 - 2 ^ 970 \<le> \<bar>x\<bar> then (if 0 < x then PosInfinity else NegInfinity)
      else Finite (nearest x))"

fun js_sign :: "number \<Rightarrow> int" where
  "js_sign (Finite x) = (if x < 0 then - 1 else if 0 < x then 1 else 0)"
| "js_sign PosInfinity = 1"
| "js_sign NegInfinity = - 1"
| "js_sign NaN = 0"

text \<open>\<^verbatim>\<open>a * b\<close>: an infinity times zero is \<^verbatim>\<open>NaN\<close>.\<close>

definition js_mul :: "number \<Rightarrow> number \<Rightarrow> number" where
  "js_mul a b =
     (case (a, b) of
        (Finite x, Finite y) \<Rightarrow> roundToDouble (x * y)
      | _ \<Rightarrow> if a = NaN \<or> b = NaN \<or> js_sign a * js_sign b = 0 then NaN
             else if 0 < js_sign a * js_sign b then PosInfinity else NegInfinity)"

text \<open>\<^verbatim>\<open>a + b\<close>: the sum of the two infinities is \<^verbatim>\<open>NaN\<close>.\<close>

definition js_add :: "number \<Rightarrow> number \<Rightarrow> number" where
  "js_add a b =
     (case (a, b) of
        (Finite x, Finite y) \<Rightarrow> roundToDouble (x + y)
      | (Finite x, _) \<Rightarrow> b
      | (_, Finite y) \<Rightarrow> a
      | _ \<Rightarrow> if a = b then a else NaN)"

fun js_neg :: "number \<Rightarrow> number" where
  "js_neg (Finite x) = Finite (- x)"
| "js_neg PosInfinity = NegInfinity"
| "js_neg NegInfinity = PosInfinity"
| "js_neg NaN = NaN"

definition js_sub :: "number \<Rightarrow> number \<Rightarrow> number" where
  "js_sub a b = js_add a (js_neg b)"

fun Math_abs :: "number \<Rightarrow> number" where
  "Math_abs (Finite x) = Finite \<bar>x\<bar>"
| "Math_abs PosInfinity = PosInfinity"
| "Math_abs NegInfinity = PosInfinity"
| "Math_abs NaN = NaN"

text \<open>\<^verbatim>\<open>a < b\<close>: false when an operand is \<^verbatim>\<open>NaN\<close>.\<close>

fun js_less :: "number \<Rightarrow> number \<Rightarrow> bool" where
  "js_less (Finite x) (Finite y) = (x < y)"
| "js_less NegInfinity (Finite y) = True"
| "js_less NegInfinity PosInfinity = True"
| "js_less (Finite x) PosInfinity = True"
| "js_less _ _ = False"

text \<open>\<^verbatim>\<open>Math.max\<close> and \<^verbatim>\<open>Math.min\<close> of two arguments: \<^verbatim>\<open>NaN\<close> when one is \<^verbatim>\<open>NaN\<close>.\<close>

definition Math_max :: "number \<Rightarrow> number \<Rightarrow> number" where
  "Math_max a b = (if a = NaN \<or> b = NaN then NaN else if js_less a b then b else a)"

definition Math_min :: "number \<Rightarrow> number \<Rightarrow> number" where
  "Math_min a b = (if a = NaN \<or> b = NaN then NaN else if js_less b a then b else a)"

subsection \<open>Strings\<close>

datatype symbol =
    Siren          \<comment> \<open>U+1F6A8\<close>
  | WarningSign    \<comment> \<open>U+26A0 U+FE0F\<close>
  | CheckMark      \<comment> \<open>U+2705\<close>
  | Wrench         \<comment> \<open>U+1F527\<close>
  | Seedling       \<comment> \<open>U+1F331\<close>
  | Droplet        \<comment> \<open>U+1F4A7\<close>
  | Stopwatch      \<comment> \<open>U+23F1 U+FE0F\<close>
  | TestTube       \<comment> \<open>U+1F9EA\<close>
  | Magnifier      \<comment> \<open>U+1F50D\<close>
  | Arrows         \<comment> \<open>U+1F504\<close>
  | Memo           \<comment> \<open>U+1F4DD\<close>
  | HighVoltage    \<comment> \<open>U+26A1\<close>
  | Degree         \<comment> \<open>U+00B0\<close>

datatype fragment =
    Lit string     \<comment> \<open>literal ASCII text\<close>
  | Sym symbol     \<comment> \<open>a character outside ASCII\<close>
  | Fixed1 number  \<comment> \<open>\<^verbatim>\<open>x.toFixed(1)\<close>\<close>
  | Num real       \<comment> \<open>\<^verbatim>\<open>${x}\<close> for a number \<open>x\<close>\<close>
  | Count nat      \<comment> \<open>\<^verbatim>\<open>${xs.length}\<close>\<close>

type_synonym jstring = "fragment list"

text \<open>\<^verbatim>\<open>s.includes(t)\<close>: \<open>t\<close> occurs in \<open>s\<close> as a contiguous substring.\<close>

fun includes_str :: "string \<Rightarrow> string \<Rightarrow> bool" where
  "includes_str [] t = (t = [])"
| "includes_str (c # cs) t = (prefix t (c # cs) \<or> includes_str cs t)"

text \<open>\<^verbatim>\<open>s.replace(pat, rep)\<close> with a string pattern: the first occurrence only.\<close>

fun replace :: "string \<Rightarrow> string \<Rightarrow> string \<Rightarrow> string" where
  "replace [] pat rep = (if pat = [] then rep else [])"
| "replace (c # cs) pat rep =
     (if prefix pat (c # cs) then rep @ drop (length pat) (c # cs)
      else c # replace cs pat rep)"

text \<open>\<^verbatim>\<open>s.toUpperCase()\<close> on ASCII text: the letters a to z are mapped, the rest is kept.\<close>

definition toUpperCase :: "string \<Rightarrow> string" where
  "toUpperCase s =
     map (\<lambda>c. let n = (of_char c :: nat)
              in if 97 \<le> n \<and> n \<le> 122 then char_of (n - 32) else c) s"

text \<open>\<^verbatim>\<open>xs.join(sep)\<close>.\<close>

fun join :: "string \<Rightarrow> string list \<Rightarrow> string" where
  "join sep [] = []"
| "join sep [x] = x"
| "join sep (x # y # ys) = x @ sep @ join sep (y # ys)"

subsection \<open>Readings and the standards table\<close>

type_synonym readings = "(string \<times> real) list"

text \<open>A comparison with \<^verbatim>\<open>undefined\<close> is false in JavaScript.\<close>

definition js_lt :: "number option \<Rightarrow> real \<Rightarrow> bool" where
  "js_lt x c = (case x of None \<Rightarrow> False | Some v \<Rightarrow> js_less v (Finite c))"

record sensor_standard =
  min_std :: real
  max_std :: real
  optimal :: real
  unit_std :: jstring
  description :: string

definition sensorStandards :: "(string \<times> sensor_standard) list" where
  "sensorStandards =
    [(''nitrogen'', \<lparr>min_std = 40, max_std = 80, optimal = 60, unit_std = [Lit ''ppm''],
        description = ''Leaf growth and color''\<rparr>),
     (''phosphorus'', \<lparr>min_std = 20, max_std = 50, optimal = 35, unit_std = [Lit ''ppm''],
        description = ''Root and flower development''\<rparr>),
     (''potassium'', \<lparr>min_std = 30, max_std = 70, optimal = 50, unit_std = [Lit ''ppm''],
        description = ''Disease resistance''\<rparr>),
     (''moisture'', \<lparr>min_std = 20, max_std = 40, optimal = 30, unit_std = [Lit ''%''],
        description = ''Soil water content''\<rparr>),
     (''temperature'', \<lparr>min_std = 15, max_std = 30, optimal = 22,
        unit_std = [Sym Degree, Lit ''C''], description = ''Ambient temperature''\<rparr>),
     (''ph'', \<lparr>min_std = 6.5, max_std = 7.5, optimal = 7, unit_std = [Lit ''pH''],
        description = ''Soil acidity''\<rparr>),
     (''ec'', \<lparr>min_std = 1.0, max_std = 3.0, optimal = 2.0, unit_std = [Lit ''mS/cm''],
        description = ''Nutrient concentration''\<rparr>)]"

text \<open>
  \<^verbatim>\<open>this.sensorStandards[key]\<close> reads a property of an object literal. The table has
  seven own properties; any other key is looked up on \<^verbatim>\<open>Object.prototype\<close>, whose
  members are functions or objects: truthy values that have no \<^verbatim>\<open>min\<close> and no
  \<^verbatim>\<open>max\<close>. Every remaining key reads \<^verbatim>\<open>undefined\<close>.
\<close>

definition objectPrototypeKeys :: "string list" where
  "objectPrototypeKeys =
    [''constructor'', ''__defineGetter__'', ''__defineSetter__'', ''hasOwnProperty'',
     ''__lookupGetter__'', ''__lookupSetter__'', ''isPrototypeOf'',
     ''propertyIsEnumerable'', ''toString'', ''valueOf'', ''__proto__'',
     ''toLocaleString'']"

datatype standard_lookup = Own sensor_standard | Inherited | Undefined

definition standardOf :: "string \<Rightarrow> standard_lookup" where
  "standardOf key =
     (case map_of sensorStandards key of
        Some standard \<Rightarrow> Own standard
      | None \<Rightarrow> if key \<in> set objectPrototypeKeys then Inherited else Undefined)"

definition truthy :: "standard_lookup \<Rightarrow> bool" where
  "truthy standard = (standard \<noteq> Undefined)"

subsection \<open>calculateNPKFromECpH\<close>

record npk =
  nitrogen :: number
  phosphorus :: number
  potassium :: number

definition calculateNPKFromECpH :: "number \<Rightarrow> number \<Rightarrow> npk" where
  "calculateNPKFromECpH ec ph =
     \<lparr>nitrogen = Math_min (Finite 100) (Math_max (Finite 0)
        (js_add (js_mul ec (Finite 25)) (js_mul (js_sub ph (Finite 6.0)) (Finite 10)))),
      phosphorus = Math_min (Finite 100) (Math_max (Finite 0)
        (js_add (js_mul ec (Finite 15))
           (js_mul (js_sub (Finite 7.0) (Math_abs (js_sub (Finite 7.0) ph))) (Finite 15)))),
      potassium = Math_min (Finite 100) (Math_max (Finite 0)
        (js_add (js_mul ec (Finite 20)) (js_mul (js_sub ph (Finite 6.5)) (Finite 12))))\<rparr>"

text \<open>
  The clamp of the specification: a value is bounded to the interval from 0 to 100.
  On numbers, an infinity is bounded like a finite value and \<^verbatim>\<open>NaN\<close> stays
  \<^verbatim>\<open>NaN\<close>.
\<close>

definition clamp :: "real \<Rightarrow> real" where
  "clamp x = (if x < 0 then 0 else if 100 < x then 100 else x)"

fun clampNumber :: "number \<Rightarrow> number" where
  "clampNumber (Finite x) = Finite (clamp x)"
| "clampNumber PosInfinity = Finite 100"
| "clampNumber NegInfinity = Finite 0"
| "clampNumber NaN = NaN"

fun withinRange :: "number \<Rightarrow> bool" where
  "withinRange (Finite x) = (0 \<le> x \<and> x \<le> 100)"
| "withinRange _ = False"

subsection \<open>checkSensorValidity\<close>

record sensor_issue =
  sensor :: string
  value_issue :: real
  unit_issue :: jstring
  min_issue :: real
  max_issue :: real
  severity :: string

record validity =
  hasIssues :: bool
  issues :: "sensor_issue list"
  message_validity :: jstring

text \<open>
  The body of the \<^verbatim>\<open>forEach\<close>: the issues pushed for one entry. The guard
  \<^verbatim>\<open>standard && (...)\<close> stops at an undefined standard; for an inherited member both
  comparisons are against \<^verbatim>\<open>undefined\<close> and false.
\<close>

fun issuesOfEntry :: "string \<times> real \<Rightarrow> sensor_issue list" where
  "issuesOfEntry (key, val) =
     (case standardOf key of
        Undefined \<Rightarrow> []
      | Inherited \<Rightarrow> []
      | Own standard \<Rightarrow>
          if val < min_std standard \<or> val > max_std standard
          then [\<lparr>sensor = key, value_issue = val, unit_issue = unit_std standard,
                 min_issue = min_std standard, max_issue = max_std standard,
                 severity = (if val < min_std standard then ''low'' else ''high'')\<rparr>]
          else [])"

definition checkSensorValidity :: "readings \<Rightarrow> validity" where
  "checkSensorValidity sensorData =
     (let found = concat (map issuesOfEntry sensorData)
      in \<lparr>hasIssues = (length found > 0),
          issues = found,
          message_validity =
            (if length found = 0 then [Lit ''All sensors optimal'']
             else [Count (length found), Lit '' sensor(s) need attention''])\<rparr>)"

subsection \<open>assessSensorCredibility\<close>

record sensor_assessment =
  status :: string
  message_assessment :: jstring
  confidence_assessment :: string
  recommendation :: string

text \<open>
  \<^verbatim>\<open>Object.keys(sensorData).find(k => sensorData[k] === val)\<close> is the first key that
  holds the value; when there is none, the key is \<^verbatim>\<open>undefined\<close> and the table is read
  at the property name \<^verbatim>\<open>"undefined"\<close>.
\<close>

definition assessSensorCredibility :: "readings \<Rightarrow> sensor_assessment" where
  "assessSensorCredibility sensorData =
     (let allZero = list_all (\<lambda>val. val = 0 \<or> val = 0) (map snd sensorData);
          allMax = list_all (\<lambda>val.
            let key = find (\<lambda>k. map_of sensorData k = Some val) (map fst sensorData);
                standard = (case key of None \<Rightarrow> standardOf ''undefined''
                                      | Some k \<Rightarrow> standardOf k)
            in truthy standard \<and> val = 100) (map snd sensorData)
      in if allZero then
           \<lparr>status = ''malfunctioning'',
            message_assessment =
              [Sym WarningSign, Lit '' SENSOR MALFUNCTION DETECTED: All sensors read 0''],
            confidence_assessment = ''low'',
            recommendation = ''Check sensor connections and power supply''\<rparr>
         else if allMax then
           \<lparr>status = ''suspicious'',
            message_assessment =
              [Sym WarningSign, Lit '' SUSPICIOUS READINGS: All sensors at maximum values''],
            confidence_assessment = ''medium'',
            recommendation = ''Verify sensor calibration''\<rparr>
         else
           (let checked = checkSensorValidity sensorData
            in \<lparr>status = (if hasIssues checked then ''needs_attention'' else ''credible''),
                message_assessment =
                  (if hasIssues checked
                   then [Count (length (issues checked)), Lit '' sensor(s) out of optimal range'']
                   else [Lit ''Sensor readings appear credible'']),
                confidence_assessment = ''high'',
                recommendation =
                  (if hasIssues checked then ''Adjust sensor values''
                   else ''Sensors working properly'')\<rparr>))"

subsection \<open>detectNutrientDeficiencies\<close>

text \<open>
  \<^verbatim>\<open>const npkValues = calculatedNPK || sensorData\<close> followed by a property read: the
  estimate when there is one (an object is truthy), the readings when it is
  \<^verbatim>\<open>null\<close> or not passed.
\<close>

definition npkValues :: "npk option \<Rightarrow> readings \<Rightarrow> string \<Rightarrow> number option" where
  "npkValues calculatedNPK sensorData name =
     (case calculatedNPK of
        Some estimate \<Rightarrow>
          map_of [(''nitrogen'', nitrogen estimate), (''phosphorus'', phosphorus estimate),
                  (''potassium'', potassium estimate)] name
      | None \<Rightarrow> map_option Finite (map_of sensorData name))"

definition detectNutrientDeficiencies :: "readings \<Rightarrow> npk option \<Rightarrow> string list" where
  "detectNutrientDeficiencies sensorData calculatedNPK =
     (if js_lt (npkValues calculatedNPK sensorData ''nitrogen'') 40
      then [''Nitrogen (N)''] else [])
     @ (if js_lt (npkValues calculatedNPK sensorData ''phosphorus'') 20
        then [''Phosphorus (P)''] else [])
     @ (if js_lt (npkValues calculatedNPK sensorData ''potassium'') 30
        then [''Potassium (K)''] else [])"

subsection \<open>generateIntelligentDiagnosis\<close>

record diagnosis =
  verdict :: string
  confidence_diagnosis :: string
  message_diagnosis :: jstring
  reasoning :: string
  requiresImmediateAction :: bool

text \<open>
  The inner chain of the agreement case. It has no final \<^verbatim>\<open>else\<close>: for any other
  prediction nothing is returned (\<open>None\<close>) and control falls through to the
  cases below.
\<close>

definition agreementDiagnosis ::
    "string \<Rightarrow> real \<Rightarrow> readings \<Rightarrow> npk option \<Rightarrow> diagnosis option" where
  "agreementDiagnosis aiPrediction aiConfidence sensorData calculatedNPK =
     (if aiPrediction = ''healthy'' then
        Some \<lparr>verdict = ''PLANT IS HEALTHY'',
              confidence_diagnosis = ''very_high'',
              message_diagnosis =
                [Sym CheckMark, Lit '' Visual appearance ('', Fixed1 (js_mul (Finite aiConfidence) (Finite 100)),
                 Lit ''% confidence) confirms healthy plant. Sensors show optimal conditions.''],
              reasoning = ''Both visual indicators and sensor data agree on plant health.'',
              requiresImmediateAction = False\<rparr>
      else if aiPrediction = ''nutrient_deficient'' then
        (let deficient = detectNutrientDeficiencies sensorData calculatedNPK
         in Some \<lparr>verdict = ''NUTRIENT DEFICIENCY CONFIRMED'',
                  confidence_diagnosis = ''high'',
                  message_diagnosis =
                    [Sym WarningSign, Lit '' Visual symptoms ('', Fixed1 (js_mul (Finite aiConfidence) (Finite 100)),
                     Lit ''% confidence) match sensor-detected nutrient issues.''],
                  reasoning =
                    ''CNN detected deficiency patterns matching ''
                    @ (if length deficient > 0 then join '', '' deficient
                       else ''multiple nutrient'')
                    @ '' imbalances.'',
                  requiresImmediateAction = True\<rparr>)
      else if aiPrediction = ''diseased'' then
        Some \<lparr>verdict = ''DISEASE DETECTED'',
              confidence_diagnosis = ''high'',
              message_diagnosis =
                [Sym Siren, Lit '' Visual analysis ('', Fixed1 (js_mul (Finite aiConfidence) (Finite 100)),
                 Lit ''% confidence) indicates disease. Sensor conditions may be contributing.''],
              reasoning =
                ''Plant shows visual disease symptoms that require immediate attention.'',
              requiresImmediateAction = True\<rparr>
      else None)"

definition generateIntelligentDiagnosis ::
    "string \<Rightarrow> real \<Rightarrow> readings \<Rightarrow> sensor_assessment \<Rightarrow> npk option \<Rightarrow> diagnosis" where
  "generateIntelligentDiagnosis aiPrediction aiConfidence sensorData sensorAssessment
       calculatedNPK =
     (let sensorIssues = checkSensorValidity sensorData
      in case (if (aiPrediction = ''healthy'' \<and> \<not> hasIssues sensorIssues)
                  \<or> (aiPrediction \<noteq> ''healthy'' \<and> hasIssues sensorIssues)
               then agreementDiagnosis aiPrediction aiConfidence sensorData calculatedNPK
               else None) of
           Some agreed \<Rightarrow> agreed
         | None \<Rightarrow>
             if aiPrediction = ''healthy'' \<and> hasIssues sensorIssues then
               (if status sensorAssessment = ''malfunctioning'' then
                  \<lparr>verdict = ''SENSOR MALFUNCTION'',
                   confidence_diagnosis = ''high'',
                   message_diagnosis =
                     [Sym CheckMark, Lit '' Plant appears healthy ('',
                      Fixed1 (js_mul (Finite aiConfidence) (Finite 100)),
                      Lit ''% confidence) but sensors show malfunction.''],
                   reasoning = ''Visual health indicators contradict sensor readings. Likely sensor hardware issue.'',
                   requiresImmediateAction = False\<rparr>
                else
                  \<lparr>verdict = ''EARLY WARNING'',
                   confidence_diagnosis = ''medium'',
                   message_diagnosis =
                     [Sym WarningSign, Lit '' Plant looks healthy ('',
                      Fixed1 (js_mul (Finite aiConfidence) (Finite 100)),
                      Lit ''% confidence) but sensors show developing issues.''],
                   reasoning = ''Sensors detect suboptimal conditions that may not yet show visual symptoms.'',
                   requiresImmediateAction = True\<rparr>)
             else if aiPrediction \<noteq> ''healthy'' \<and> \<not> hasIssues sensorIssues then
               \<lparr>verdict = ''VISUAL ISSUE DETECTED'',
                confidence_diagnosis = ''medium'',
                message_diagnosis =
                  [Sym Magnifier, Lit '' CNN detects issues ('', Fixed1 (js_mul (Finite aiConfidence) (Finite 100)),
                   Lit ''% confidence) but sensors report normal conditions.''],
                reasoning = ''Visual symptoms detected that may not be related to measured soil conditions.'',
                requiresImmediateAction = True\<rparr>
             else
               \<lparr>verdict = ''INCONCLUSIVE'',
                confidence_diagnosis = ''low'',
                message_diagnosis =
                  [Lit ''Analysis results are inconclusive. Further investigation needed.''],
                reasoning = ''Conflicting signals between visual and sensor data.'',
                requiresImmediateAction = False\<rparr>)"

subsection \<open>determineEmergencyLevel\<close>

record emergency_level =
  level :: string
  color :: string
  icon_level :: symbol
  message_level :: string

definition determineEmergencyLevel :: "diagnosis \<Rightarrow> sensor_assessment \<Rightarrow> emergency_level" where
  "determineEmergencyLevel diagnosed sensorAssessment =
     (if includes_str (verdict diagnosed) ''DISEASE'' \<or> requiresImmediateAction diagnosed then
        \<lparr>level = ''high'', color = ''red'', icon_level = Siren,
         message_level = ''IMMEDIATE ACTION REQUIRED''\<rparr>
      else if status sensorAssessment = ''malfunctioning''
              \<or> includes_str (verdict diagnosed) ''WARNING'' then
        \<lparr>level = ''medium'', color = ''orange'', icon_level = WarningSign,
         message_level = ''ATTENTION NEEDED''\<rparr>
      else
        \<lparr>level = ''low'', color = ''green'', icon_level = CheckMark,
         message_level = ''MONITOR REGULARLY''\<rparr>)"

subsection \<open>generateActionableRecommendations\<close>

record recommendation_item =
  action :: string
  reason :: jstring
  priority :: int
  icon :: symbol

definition getNutrientAction :: "string \<Rightarrow> string" where
  "getNutrientAction deficient =
     (if deficient = ''Nitrogen (N)'' then ''APPLY NITROGEN-RICH FERTILIZER (20-10-10)''
      else if deficient = ''Phosphorus (P)'' then ''ADD BONE MEAL OR ROCK PHOSPHATE''
      else if deficient = ''Potassium (K)'' then ''APPLY POTASH OR POTASSIUM SULFATE''
      else ''APPLY BALANCED FERTILIZER'')"

text \<open>
  \<^verbatim>\<open>Array.prototype.sort(compare)\<close> is a stable sort (ECMAScript 2019): the result is
  ordered by the comparator, and elements that compare equal keep their order. It is
  modelled by a stable insertion sort over the comparator.
\<close>

fun insert_sorted :: "('a \<Rightarrow> 'a \<Rightarrow> int) \<Rightarrow> 'a \<Rightarrow> 'a list \<Rightarrow> 'a list" where
  "insert_sorted compare x [] = [x]"
| "insert_sorted compare x (y # ys) =
     (if compare x y \<le> 0 then x # y # ys else y # insert_sorted compare x ys)"

definition array_sort :: "('a \<Rightarrow> 'a \<Rightarrow> int) \<Rightarrow> 'a list \<Rightarrow> 'a list" where
  "array_sort compare xs = foldr (insert_sorted compare) xs []"

text \<open>
  The recommendations in the order in which the source pushes them: the emergency
  action, then either the sensor check alone (the early return) or the nutrient, water
  and pH actions. \<^verbatim>\<open>detectNutrientDeficiencies(sensorData)\<close> is called without an
  estimate. The moisture and pH comparisons are false for a missing reading.
\<close>

definition pushedRecommendations ::
    "diagnosis \<Rightarrow> readings \<Rightarrow> sensor_assessment \<Rightarrow> emergency_level
     \<Rightarrow> recommendation_item list" where
  "pushedRecommendations diagnosed sensorData sensorAssessment emergency =
     (if level emergency = ''high'' then
        [\<lparr>action = ''ISOLATE PLANT'', reason = [Lit ''Prevent spread to other plants''],
          priority = 1, icon = Siren\<rparr>]
      else [])
     @ (if status sensorAssessment = ''malfunctioning'' then
          [\<lparr>action = ''CHECK SENSOR CONNECTIONS'',
            reason = [Lit ''All sensors reading 0 - likely hardware issue''],
            priority = 1, icon = Wrench\<rparr>]
        else
          map (\<lambda>(index, deficient).
                 \<lparr>action = getNutrientAction deficient,
                  reason = [Lit deficient, Lit '' deficiency detected''],
                  priority = 2 + int index, icon = Seedling\<rparr>)
              (enumerate 0 (detectNutrientDeficiencies sensorData None))
          @ (case map_of sensorData ''moisture'' of
               None \<Rightarrow> []
             | Some moisture \<Rightarrow>
                 if moisture < 20 then
                   [\<lparr>action = ''WATER IMMEDIATELY'',
                     reason = [Lit ''Soil moisture at '', Num moisture,
                               Lit ''% (optimal: 20-40%)''],
                     priority = 2, icon = Droplet\<rparr>]
                 else if moisture > 40 then
                   [\<lparr>action = ''REDUCE WATERING'',
                     reason = [Lit ''Soil moisture at '', Num moisture,
                               Lit ''% (optimal: 20-40%)''],
                     priority = 2, icon = Stopwatch\<rparr>]
                 else [])
          @ (case map_of sensorData ''ph'' of
               None \<Rightarrow> []
             | Some ph \<Rightarrow>
                 if ph < 6.5 then
                   [\<lparr>action = ''ADD LIME TO RAISE pH'',
                     reason = [Lit ''Soil pH at '', Num ph, Lit '' (optimal: 6.5-7.5)''],
                     priority = 3, icon = TestTube\<rparr>]
                 else if ph > 7.5 then
                   [\<lparr>action = ''ADD SULFUR TO LOWER pH'',
                     reason = [Lit ''Soil pH at '', Num ph, Lit '' (optimal: 6.5-7.5)''],
                     priority = 3, icon = TestTube\<rparr>]
                 else []))"

text \<open>The early return hands the list back as pushed; every other path sorts it.\<close>

definition generateActionableRecommendations ::
    "diagnosis \<Rightarrow> readings \<Rightarrow> sensor_assessment \<Rightarrow> emergency_level
     \<Rightarrow> recommendation_item list" where
  "generateActionableRecommendations diagnosed sensorData sensorAssessment emergency =
     (let pushed = pushedRecommendations diagnosed sensorData sensorAssessment emergency
      in if status sensorAssessment = ''malfunctioning'' then pushed
         else array_sort (\<lambda>a b. priority a - priority b) pushed)"

subsection \<open>identifySpecificDeficiencies\<close>

record vision =
  prediction :: string
  confidence :: real
  possible_issues :: "string list option"

record visual_deficiency =
  deficiency_visual :: string
  detectedBy_visual :: string
  confidence_visual :: real

record sensor_deficiency =
  deficiency_sensor :: string
  level_sensor :: number
  unit_sensor :: string
  detectedBy_sensor :: string
  severity_sensor :: string

datatype deficiency =
    Visual visual_deficiency   \<comment> \<open>\<^verbatim>\<open>type: 'visual'\<close>\<close>
  | Sensor sensor_deficiency   \<comment> \<open>\<^verbatim>\<open>type: 'sensor'\<close>\<close>

definition sensorDeficiency ::
    "number option \<Rightarrow> real \<Rightarrow> real \<Rightarrow> string \<Rightarrow> deficiency list" where
  "sensorDeficiency reading threshold severe name =
     (case reading of
        None \<Rightarrow> []
      | Some amount \<Rightarrow>
          if js_less amount (Finite threshold) then
            [Sensor \<lparr>deficiency_sensor = name, level_sensor = amount, unit_sensor = ''ppm'',
                     detectedBy_sensor = ''Soil Sensor'',
                     severity_sensor =
                       (if js_less amount (Finite severe) then ''severe'' else ''moderate'')\<rparr>]
          else [])"

definition identifySpecificDeficiencies ::
    "vision \<Rightarrow> readings \<Rightarrow> npk option \<Rightarrow> deficiency list" where
  "identifySpecificDeficiencies aiResult sensorData calculatedNPK =
     (case possible_issues aiResult of
        None \<Rightarrow> []
      | Some tags \<Rightarrow>
          map (\<lambda>issue. Visual \<lparr>deficiency_visual = toUpperCase (replace issue ''_deficiency'' []),
                                detectedBy_visual = ''CNN Model'',
                                confidence_visual = confidence aiResult\<rparr>) tags)
     @ sensorDeficiency (npkValues calculatedNPK sensorData ''nitrogen'') 40 20 ''NITROGEN''
     @ sensorDeficiency (npkValues calculatedNPK sensorData ''phosphorus'') 20 10 ''PHOSPHORUS''
     @ sensorDeficiency (npkValues calculatedNPK sensorData ''potassium'') 30 15 ''POTASSIUM''"

subsection \<open>generateNextSteps and getVisualAssessmentMessage\<close>

record next_steps =
  title :: jstring
  steps :: "string list"
  buttonText :: jstring

definition generateNextSteps :: "emergency_level \<Rightarrow> bool \<Rightarrow> next_steps" where
  "generateNextSteps emergency immediate =
     (if immediate then
        \<lparr>title = [Sym Arrows, Lit '' WHAT TO DO NEXT''],
         steps = [''1. Review emergency actions below'',
                  ''2. Implement highest priority recommendations first'',
                  ''3. Take photos after treatment for comparison'',
                  ''4. Re-analyze in 3-5 days''],
         buttonText = (if level emergency = ''high''
                       then [Sym Siren, Lit '' TAKE EMERGENCY ACTION'']
                       else [Sym HighVoltage, Lit '' START RECOVERY PLAN''])\<rparr>
      else
        \<lparr>title = [Sym Memo, Lit '' RECOMMENDED NEXT STEPS''],
         steps = [''1. Review recommendations below'',
                  ''2. Adjust care routine as suggested'',
                  ''3. Monitor plant daily'',
                  ''4. Re-analyze weekly for improvements''],
         buttonText = [Sym Seedling, Lit '' VIEW ACTION PLAN'']\<rparr>)"

definition getVisualAssessmentMessage :: "string \<Rightarrow> real \<Rightarrow> jstring" where
  "getVisualAssessmentMessage predicted conf =
     (let confidencePercent = Fixed1 (js_mul (Finite conf) (Finite 100))
      in if predicted = ''healthy'' then
           [Lit ''The plant appears visually healthy with '', confidencePercent,
            Lit ''% confidence.'']
         else if predicted = ''nutrient_deficient'' then
           [Lit ''Visual symptoms suggest nutrient deficiency with '', confidencePercent,
            Lit ''% confidence.'']
         else if predicted = ''diseased'' then
           [Lit ''Disease symptoms detected with '', confidencePercent, Lit ''% confidence.'']
         else
           [Lit ''Visual analysis completed with '', confidencePercent,
            Lit ''% confidence.''])"

subsection \<open>analyzeSituation\<close>

record visual_assessment =
  prediction_assessed :: string
  confidence_assessed :: real
  message_assessed :: jstring

text \<open>
  The object \<^verbatim>\<open>{...sensorAssessment, readings, calculatedNPK, issues}\<close>: the fields of
  the assessment, extended.
\<close>

record sensor_report = sensor_assessment +
  readings_report :: readings
  calculatedNPK :: "npk option"
  issues_report :: "sensor_issue list"

record analysis =
  emergencyLevel :: emergency_level
  visualAssessment :: visual_assessment
  sensorAssessment :: sensor_report
  intelligentDiagnosis :: diagnosis
  deficiencies :: "deficiency list"
  recommendations :: "recommendation_item list"
  nextSteps :: next_steps

definition analyzeSituation :: "vision \<Rightarrow> readings \<Rightarrow> analysis" where
  "analyzeSituation aiResult sensorData =
     (let aiPrediction = prediction aiResult;
          aiConfidence = confidence aiResult;
          assessed = assessSensorCredibility sensorData;
          sensorIssues = checkSensorValidity sensorData;
          estimate =
            (case map_of sensorData ''ec'' of
               None \<Rightarrow> None
             | Some ec \<Rightarrow>
                 (case map_of sensorData ''ph'' of
                    None \<Rightarrow> None
                  | Some ph \<Rightarrow> Some (calculateNPKFromECpH (Finite ec) (Finite ph))));
          diagnosed =
            generateIntelligentDiagnosis aiPrediction aiConfidence sensorData assessed estimate;
          emergency = determineEmergencyLevel diagnosed assessed;
          recommended =
            generateActionableRecommendations diagnosed sensorData assessed emergency;
          deficient = identifySpecificDeficiencies aiResult sensorData estimate
      in \<lparr>emergencyLevel = emergency,
          visualAssessment =
            \<lparr>prediction_assessed = aiPrediction,
             confidence_assessed = aiConfidence,
             message_assessed = getVisualAssessmentMessage aiPrediction aiConfidence\<rparr>,
          sensorAssessment =
            \<lparr>status = status assessed,
             message_assessment = message_assessment assessed,
             confidence_assessment = confidence_assessment assessed,
             recommendation = recommendation assessed,
             readings_report = sensorData,
             calculatedNPK = estimate,
             issues_report = issues sensorIssues\<rparr>,
          intelligentDiagnosis = diagnosed,
          deficiencies = deficient,
          recommendations = recommended,
          nextSteps = generateNextSteps emergency (requiresImmediateAction diagnosed)\<rparr>)"

section \<open>Helper lemmas\<close>

subsection \<open>Numbers and strings\<close>

lemma bitlen_eqI:
  assumes "2 ^ n \<le> m" and "m < 2 ^ Suc n"
  shows "bitlen m = int n + 1"
proof -
  have mpos: "0 < m"
    using assms(1) by (smt (verit) zero_less_power)
  have b: "2 ^ nat (bitlen m - 1) \<le> m" "m < 2 ^ nat (bitlen m)"
    using bitlen_bounds [OF mpos] by simp_all
  have "(2::int) ^ nat (bitlen m - 1) < 2 ^ Suc n"
    using b(1) assms(2) by linarith
  then have le: "nat (bitlen m - 1) < Suc n"
    by (simp only: power_strict_increasing_iff [of "2::int"] one_less_numeral_iff semiring_norm)
  have "(2::int) ^ n < 2 ^ nat (bitlen m)"
    using b(2) assms(1) by linarith
  then have ge: "n < nat (bitlen m)"
    by (simp only: power_strict_increasing_iff [of "2::int"] one_less_numeral_iff semiring_norm)
  from le ge show ?thesis by linarith
qed

text \<open>The exponent is the binary exponent: \<open>2 ^ e \<le> |x| < 2 ^ (e + 1)\<close>.\<close>

lemma exponent_bounds_large:
  assumes "1 \<le> \<bar>x\<bar>"
  shows "pow2 (exponent x) \<le> \<bar>x\<bar> \<and> \<bar>x\<bar> < pow2 (exponent x + 1)"
proof -
  define m where "m = \<lfloor>\<bar>x\<bar>\<rfloor>"
  have mpos: "0 < m"
    using assms by (simp add: m_def)
  have b: "2 ^ nat (bitlen m - 1) \<le> m" "m < 2 ^ nat (bitlen m)"
    using bitlen_bounds [OF mpos] by simp_all
  have b1: "1 \<le> bitlen m"
    using mpos bitlen_eq_zero_iff [of m] bitlen_nonneg [of m] by linarith
  have e: "exponent x = bitlen m - 1"
    using assms by (simp add: exponent_def m_def)
  have "real_of_int (2 ^ nat (bitlen m - 1)) \<le> real_of_int m"
    using b(1) by (simp only: of_int_le_iff)
  also have "\<dots> \<le> \<bar>x\<bar>"
    by (simp add: m_def)
  finally have lo: "pow2 (bitlen m - 1) \<le> \<bar>x\<bar>"
    using b1 by (simp add: pow2_def)
  have "m + 1 \<le> 2 ^ nat (bitlen m)"
    using b(2) by simp
  then have "real_of_int (m + 1) \<le> real_of_int (2 ^ nat (bitlen m))"
    by (simp only: of_int_le_iff)
  moreover have "\<bar>x\<bar> < real_of_int (m + 1)"
    by (simp add: m_def)
  ultimately have hi: "\<bar>x\<bar> < pow2 (bitlen m)"
    using b1 by (simp add: pow2_def)
  show ?thesis
    using lo hi by (simp add: e)
qed

lemma exponent_bounds_small:
  assumes "x \<noteq> 0" and "\<bar>x\<bar> < 1"
  shows "pow2 (exponent x) \<le> \<bar>x\<bar> \<and> \<bar>x\<bar> < pow2 (exponent x + 1)"
proof -
  define y where "y = 1 / \<bar>x\<bar>"
  define m where "m = \<lceil>y\<rceil> - 1"
  have xpos: "0 < \<bar>x\<bar>"
    using assms(1) by simp
  have y1: "1 < y"
    using assms(2) xpos by (simp add: y_def)
  have mpos: "0 < m"
    using y1 by (simp add: m_def less_ceiling_iff)
  have b: "2 ^ nat (bitlen m - 1) \<le> m" "m < 2 ^ nat (bitlen m)"
    using bitlen_bounds [OF mpos] by simp_all
  have b1: "1 \<le> bitlen m"
    using mpos bitlen_eq_zero_iff [of m] bitlen_nonneg [of m] by linarith
  have e: "exponent x = - bitlen m"
    using assms(2) by (simp add: exponent_def m_def y_def)
  have "y \<le> real_of_int (m + 1)"
    by (simp add: m_def)
  also have "real_of_int (m + 1) \<le> real_of_int (2 ^ nat (bitlen m))"
    using b(2) by (simp only: of_int_le_iff)
  finally have yhi: "y \<le> 2 ^ nat (bitlen m)"
    by simp
  have "(2::real) ^ nat (bitlen m - 1) \<le> real_of_int m"
  proof -
    have "real_of_int (2 ^ nat (bitlen m - 1)) \<le> real_of_int m"
      using b(1) by (rule of_int_le_iff [THEN iffD2])
    then show ?thesis by simp
  qed
  moreover have "real_of_int m < y"
    by (simp add: m_def) linarith
  ultimately have ylo: "2 ^ nat (bitlen m - 1) < y"
    by linarith
  have lo: "1 / 2 ^ nat (bitlen m) \<le> \<bar>x\<bar>"
    using yhi xpos by (simp add: y_def field_simps)
  have hi: "\<bar>x\<bar> < 1 / 2 ^ nat (bitlen m - 1)"
    using ylo xpos by (simp add: y_def field_simps)
  have p1: "pow2 (- bitlen m) = 1 / 2 ^ nat (bitlen m)"
    using b1 by (simp add: pow2_def)
  have p2: "pow2 (1 - bitlen m) = 1 / 2 ^ nat (bitlen m - 1)"
    using b1 by (cases "bitlen m = 1") (simp_all add: pow2_def)
  show ?thesis
    using lo hi by (simp add: e p1 p2)
qed

lemma exponent_bounds:
  "x \<noteq> 0 \<Longrightarrow> pow2 (exponent x) \<le> \<bar>x\<bar> \<and> \<bar>x\<bar> < pow2 (exponent x + 1)"
  using exponent_bounds_large [of x] exponent_bounds_small [of x] by (cases "1 \<le> \<bar>x\<bar>") simp_all

text \<open>The exponent of a real of magnitude at least 1 is the one its bounds name.\<close>

lemma exponent_eqI:
  assumes lo: "2 ^ n \<le> \<bar>x\<bar>" and hi: "\<bar>x\<bar> < 2 ^ Suc n"
  shows "exponent x = int n"
proof -
  have one: "1 \<le> \<bar>x\<bar>"
    using lo one_le_power [of "2::real" n] by linarith
  have mlo: "2 ^ n \<le> \<lfloor>\<bar>x\<bar>\<rfloor>"
    using lo by (simp add: le_floor_iff)
  have mhi: "\<lfloor>\<bar>x\<bar>\<rfloor> < 2 ^ Suc n"
    using hi by (simp add: floor_less_iff)
  have "bitlen \<lfloor>\<bar>x\<bar>\<rfloor> = int n + 1"
    using mlo mhi by (rule bitlen_eqI)
  then show ?thesis
    using one by (simp add: exponent_def)
qed

text \<open>Evaluation of the arithmetic on numerals of moderate size.\<close>

lemmas evaluate_number =
  roundToDouble_def nearest_def ulp_def exponent_def pow2_def roundHalfEven_def
  compute_bitlen Let_def js_mul_def js_add_def js_sub_def Math_max_def Math_min_def

text \<open>A difference that is rounded away: the double next to \<open>- 2 ^ 1023 - 6\<close>.\<close>

lemma roundToDouble_huge: "roundToDouble (- (2 ^ 1023) - 6) = Finite (- (2 ^ 1023))"
proof -
  define x :: real where "x = - (2 ^ 1023) - 6"
  have e: "exponent x = 1023"
    unfolding x_def using exponent_eqI [of 1023 "- (2 ^ 1023) - 6"] by simp
  have u: "ulp x = 2 ^ 971"
    by (simp add: ulp_def e pow2_def)
  have q: "roundHalfEven (x / 2 ^ 971) = - (2 ^ 52)"
    unfolding x_def by (simp add: roundHalfEven_def Let_def)
  have n: "nearest x = - (2 ^ 1023)"
    by (simp only: nearest_def u q) simp
  have t: "\<not> 2 ^ 1024 - 2 ^ 970 \<le> \<bar>x\<bar>"
    unfolding x_def by simp
  have "roundToDouble x = Finite (- (2 ^ 1023))"
    by (simp only: roundToDouble_def t n if_False)
  then show ?thesis
    unfolding x_def .
qed

lemma min_max_clampNumber: "Math_min (Finite 100) (Math_max (Finite 0) s) = clampNumber s"
  by (cases s) (simp_all add: Math_max_def Math_min_def clamp_def)

lemma clampNumber_range: "clampNumber s = NaN \<or> withinRange (clampNumber s)"
  by (cases s) (simp_all add: clamp_def)

lemma clampNumber_not_NaN: "s \<noteq> NaN \<Longrightarrow> withinRange (clampNumber s)"
  by (cases s) (simp_all add: clamp_def)

lemma roundToDouble_not_NaN: "roundToDouble x \<noteq> NaN"
  by (simp add: roundToDouble_def)

lemma js_neg_not_NaN: "a \<noteq> NaN \<Longrightarrow> js_neg a \<noteq> NaN"
  by (cases a) simp_all

lemma Math_abs_not_NaN: "a \<noteq> NaN \<Longrightarrow> Math_abs a \<noteq> NaN"
  by (cases a) simp_all

lemma js_add_finite_not_NaN: "b \<noteq> NaN \<Longrightarrow> js_add (Finite x) b \<noteq> NaN"
  by (cases b) (simp_all add: js_add_def roundToDouble_not_NaN)

lemma js_sub_finite_not_NaN: "b \<noteq> NaN \<Longrightarrow> js_sub (Finite x) b \<noteq> NaN"
  by (simp add: js_sub_def js_add_finite_not_NaN js_neg_not_NaN)

lemma js_mul_nonzero_not_NaN: "a \<noteq> NaN \<Longrightarrow> c \<noteq> 0 \<Longrightarrow> js_mul a (Finite c) \<noteq> NaN"
  by (cases a) (simp_all add: js_mul_def roundToDouble_not_NaN)

lemma js_mul_small_finite:
  "\<bar>x * c\<bar> < 2 ^ 1024 - 2 ^ 970 \<Longrightarrow> \<exists>r. js_mul (Finite x) (Finite c) = Finite r"
  by (simp add: js_mul_def roundToDouble_def)

lemma scaled_small:
  assumes "\<bar>e :: real\<bar> \<le> 10 ^ 300" and "0 \<le> c" and "c \<le> 25"
  shows "\<bar>e * c\<bar> < 2 ^ 1024 - 2 ^ 970"
proof -
  have "\<bar>e * c\<bar> = \<bar>e\<bar> * \<bar>c\<bar>"
    by (rule abs_mult)
  also have "\<dots> = \<bar>e\<bar> * c"
    using assms(2) by (simp only: abs_of_nonneg)
  also have "\<dots> \<le> 10 ^ 300 * 25"
    using assms by (intro mult_mono) simp_all
  also have "\<dots> < 2 ^ 1024 - 2 ^ 970"
    by simp
  finally show ?thesis .
qed

lemma nitrogen_clampNumber:
  "nitrogen (calculateNPKFromECpH ec ph)
     = clampNumber (js_add (js_mul ec (Finite 25)) (js_mul (js_sub ph (Finite 6.0)) (Finite 10)))"
  unfolding calculateNPKFromECpH_def by (simp only: npk.simps min_max_clampNumber)

lemma phosphorus_clampNumber:
  "phosphorus (calculateNPKFromECpH ec ph)
     = clampNumber (js_add (js_mul ec (Finite 15))
         (js_mul (js_sub (Finite 7.0) (Math_abs (js_sub (Finite 7.0) ph))) (Finite 15)))"
  unfolding calculateNPKFromECpH_def by (simp only: npk.simps min_max_clampNumber)

lemma potassium_clampNumber:
  "potassium (calculateNPKFromECpH ec ph)
     = clampNumber (js_add (js_mul ec (Finite 20)) (js_mul (js_sub ph (Finite 6.5)) (Finite 12)))"
  unfolding calculateNPKFromECpH_def by (simp only: npk.simps min_max_clampNumber)

lemma estimate_withinRange:
  assumes small: "\<bar>e\<bar> \<le> 10 ^ 300"
  shows "withinRange (nitrogen (calculateNPKFromECpH (Finite e) (Finite p)))
         \<and> withinRange (phosphorus (calculateNPKFromECpH (Finite e) (Finite p)))
         \<and> withinRange (potassium (calculateNPKFromECpH (Finite e) (Finite p)))"
proof -
  obtain r25 where r25: "js_mul (Finite e) (Finite 25) = Finite r25"
    using js_mul_small_finite [OF scaled_small [OF small, of 25]] by auto
  obtain r15 where r15: "js_mul (Finite e) (Finite 15) = Finite r15"
    using js_mul_small_finite [OF scaled_small [OF small, of 15]] by auto
  obtain r20 where r20: "js_mul (Finite e) (Finite 20) = Finite r20"
    using js_mul_small_finite [OF scaled_small [OF small, of 20]] by auto
  have d6: "js_sub (Finite p) (Finite 6.0) \<noteq> NaN"
    by (simp add: js_sub_finite_not_NaN)
  have d65: "js_sub (Finite p) (Finite 6.5) \<noteq> NaN"
    by (simp add: js_sub_finite_not_NaN)
  have d7: "js_sub (Finite 7.0) (Math_abs (js_sub (Finite 7.0) (Finite p))) \<noteq> NaN"
    by (simp add: js_sub_finite_not_NaN Math_abs_not_NaN)
  have a: "js_add (Finite r25) (js_mul (js_sub (Finite p) (Finite 6.0)) (Finite 10)) \<noteq> NaN"
    using d6 by (simp add: js_add_finite_not_NaN js_mul_nonzero_not_NaN)
  have b: "js_add (Finite r15)
         (js_mul (js_sub (Finite 7.0) (Math_abs (js_sub (Finite 7.0) (Finite p)))) (Finite 15))
       \<noteq> NaN"
    using d7 by (simp add: js_add_finite_not_NaN js_mul_nonzero_not_NaN)
  have c: "js_add (Finite r20) (js_mul (js_sub (Finite p) (Finite 6.5)) (Finite 12)) \<noteq> NaN"
    using d65 by (simp add: js_add_finite_not_NaN js_mul_nonzero_not_NaN)
  show ?thesis
    unfolding nitrogen_clampNumber phosphorus_clampNumber potassium_clampNumber r25 r15 r20
    using a b c by (intro conjI clampNumber_not_NaN)
qed

text \<open>\<open>includes_str\<close> decides the contiguous-substring relation of the library.\<close>

lemma includes_str_sublist: "includes_str s t = sublist t s"
  by (induction s) (simp_all add: sublist_Cons_right)

subsection \<open>Sorting\<close>

text \<open>With the comparator \<^verbatim>\<open>(a, b) => f(a) - f(b)\<close> the sort is the library's stable sort by key.\<close>

lemma insert_sorted_insort_key:
  "insert_sorted (\<lambda>a b. f a - f b) x xs = insort_key f x xs"
  by (induction xs) simp_all

lemma array_sort_sort_key: "array_sort (\<lambda>a b. f a - f b) xs = sort_key f xs"
  by (induction xs) (simp_all add: array_sort_def insert_sorted_insort_key)

subsection \<open>Validity and credibility\<close>

lemma issues_checkSensorValidity:
  "issues (checkSensorValidity sd) = concat (map issuesOfEntry sd)"
  by (simp add: checkSensorValidity_def Let_def)

lemma hasIssues_checkSensorValidity:
  "hasIssues (checkSensorValidity sd) = (issues (checkSensorValidity sd) \<noteq> [])"
  by (simp add: checkSensorValidity_def Let_def)

lemma issuesOfEntry_in_range:
  assumes "\<forall>s. standardOf (fst e) = Own s \<longrightarrow> min_std s \<le> snd e \<and> snd e \<le> max_std s"
  shows "issuesOfEntry e = []"
  using assms by (cases e) (auto split: standard_lookup.splits)

lemma issues_in_range:
  assumes "\<forall>e \<in> set sd. \<forall>s. standardOf (fst e) = Own s
             \<longrightarrow> min_std s \<le> snd e \<and> snd e \<le> max_std s"
  shows "issues (checkSensorValidity sd) = []"
  using assms by (simp add: issues_checkSensorValidity issuesOfEntry_in_range)

lemma entry_of_issue:
  "i \<in> set (issuesOfEntry e) \<Longrightarrow> (sensor i, value_issue i) = e"
  by (cases e) (auto split: standard_lookup.splits if_splits)

lemma standard_of_issue:
  "i \<in> set (issuesOfEntry e) \<Longrightarrow> \<exists>s. standardOf (sensor i) = Own s"
  by (cases e; cases "standardOf (fst e)") (auto split: if_splits)

lemma issue_from_reading:
  assumes "i \<in> set (issues (checkSensorValidity sd))"
  shows "(sensor i, value_issue i) \<in> set sd \<and> (\<exists>s. standardOf (sensor i) = Own s)"
proof -
  from assms obtain e where e: "e \<in> set sd" "i \<in> set (issuesOfEntry e)"
    by (auto simp add: issues_checkSensorValidity)
  from e(2) have "(sensor i, value_issue i) = e"
    by (rule entry_of_issue)
  with e(1) have "(sensor i, value_issue i) \<in> set sd"
    by simp
  moreover from e(2) have "\<exists>s. standardOf (sensor i) = Own s"
    by (rule standard_of_issue)
  ultimately show ?thesis ..
qed

lemma status_all_zero:
  assumes "\<forall>v \<in> snd ` set sd. v = 0"
  shows "status (assessSensorCredibility sd) = ''malfunctioning''"
proof -
  have "list_all (\<lambda>val. val = 0 \<or> val = 0) (map snd sd)"
    using assms by (simp add: list_all_iff)
  then show ?thesis
    by (simp add: assessSensorCredibility_def)
qed

lemma standardOf_own:
  assumes "k \<in> fst ` set sensorStandards"
  shows "\<exists>s. standardOf k = Own s"
proof -
  from assms obtain s where "map_of sensorStandards k = Some s"
    by (metis domD dom_map_of_conv_image_fst)
  then show ?thesis by (simp add: standardOf_def)
qed

lemma find_first_key:
  assumes "sd \<noteq> []" and "\<forall>v \<in> snd ` set sd. v = c"
  shows "find (\<lambda>k. map_of sd k = Some c) (map fst sd) = Some (fst (hd sd))"
proof (cases sd)
  case Nil
  with assms(1) show ?thesis by simp
next
  case (Cons e es)
  with assms(2) have "snd e = c" by simp
  with Cons show ?thesis by (cases e) simp
qed

subsection \<open>Diagnosis and recommendations\<close>

lemma unmatched_inconclusive:
  assumes "p \<noteq> ''healthy''" "p \<noteq> ''nutrient_deficient''" "p \<noteq> ''diseased''"
    and "issues (checkSensorValidity sd) \<noteq> []"
  shows "verdict (generateIntelligentDiagnosis p c sd sa est) = ''INCONCLUSIVE''"
  using assms
  by (simp add: generateIntelligentDiagnosis_def agreementDiagnosis_def Let_def
      hasIssues_checkSensorValidity)

lemma warning_requires_action:
  "includes_str (verdict (generateIntelligentDiagnosis p c sd sa est)) ''WARNING''
   \<Longrightarrow> requiresImmediateAction (generateIntelligentDiagnosis p c sd sa est)"
  by (simp add: generateIntelligentDiagnosis_def agreementDiagnosis_def Let_def
      split: if_splits)

lemma early_warning_requires_action:
  "verdict (generateIntelligentDiagnosis p c sd sa est) = ''EARLY WARNING''
   \<Longrightarrow> requiresImmediateAction (generateIntelligentDiagnosis p c sd sa est)"
  by (simp add: generateIntelligentDiagnosis_def agreementDiagnosis_def Let_def
      split: if_splits)

lemma recommendations_malfunctioning:
  assumes "status sa = ''malfunctioning''"
  shows "map (\<lambda>r. (action r, priority r)) (generateActionableRecommendations d sd sa el) =
           (if level el = ''high'' then [(''ISOLATE PLANT'', 1)] else [])
           @ [(''CHECK SENSOR CONNECTIONS'', 1)]"
  using assms
  by (simp add: generateActionableRecommendations_def pushedRecommendations_def)

lemma pushed_malfunctioning_priorities:
  assumes "status sa = ''malfunctioning''"
  shows "map priority (pushedRecommendations d sd sa el)
           = (if level el = ''high'' then [1] else []) @ [1]"
  using assms by (simp add: pushedRecommendations_def)

subsection \<open>The fields of the analysis\<close>

lemma analyze_recommendations:
  "recommendations (analyzeSituation ai sd) =
     generateActionableRecommendations (intelligentDiagnosis (analyzeSituation ai sd)) sd
       (assessSensorCredibility sd) (emergencyLevel (analyzeSituation ai sd))"
  by (simp add: analyzeSituation_def Let_def)

lemma analyze_status:
  "status (sensorAssessment (analyzeSituation ai sd)) = status (assessSensorCredibility sd)"
  by (simp add: analyzeSituation_def Let_def)

lemma analyze_issues:
  "issues_report (sensorAssessment (analyzeSituation ai sd)) = issues (checkSensorValidity sd)"
  by (simp add: analyzeSituation_def Let_def)

lemma analyze_calculatedNPK:
  "calculatedNPK (sensorAssessment (analyzeSituation ai sd)) =
     (case map_of sd ''ec'' of None \<Rightarrow> None
      | Some ec \<Rightarrow> (case map_of sd ''ph'' of None \<Rightarrow> None
                    | Some ph \<Rightarrow> Some (calculateNPKFromECpH (Finite ec) (Finite ph))))"
  by (simp add: analyzeSituation_def Let_def)

lemma analyze_diagnosis:
  "intelligentDiagnosis (analyzeSituation ai sd) =
     generateIntelligentDiagnosis (prediction ai) (confidence ai) sd (assessSensorCredibility sd)
       (calculatedNPK (sensorAssessment (analyzeSituation ai sd)))"
  by (simp add: analyzeSituation_def Let_def)

lemma analyze_emergencyLevel:
  "emergencyLevel (analyzeSituation ai sd) =
     determineEmergencyLevel (intelligentDiagnosis (analyzeSituation ai sd))
       (assessSensorCredibility sd)"
  by (simp add: analyzeSituation_def Let_def)

lemmas evaluate_standards =
  checkSensorValidity_def standardOf_def sensorStandards_def objectPrototypeKeys_def

section \<open>Properties\<close>

text \<open>
  C1, as stated: for every readings map in which every supplied value equals exactly
  100, the status of the assessment is \<open>suspicious\<close>. The code does not do this. The
  test of each reading also requires an entry of the standards table, so a map whose
  only reading is the value 100 of a sensor that the table does not know is assessed
  as \<open>credible\<close>. And the all-zero check comes first: in the empty map every value
  is 100 and every value is 0, and the status is \<open>malfunctioning\<close>.
\<close>

theorem all_100_unknown_sensor_credible:
  "status (assessSensorCredibility [(''humidity'', 100)]) = ''credible''
   \<and> status (assessSensorCredibility []) = ''malfunctioning''"
  by (simp add: assessSensorCredibility_def truthy_def evaluate_standards)

text \<open>
  C1, amended: for every readings map that is not empty, whose keys all are sensors of
  the standards table and whose values all equal exactly 100, the status of the
  assessment is \<open>suspicious\<close>. (The empty map is taken by the all-zero check, which
  comes first.)
\<close>

theorem all_100_known_sensors_suspicious:
  assumes nonempty: "sd \<noteq> []"
      and known: "\<forall>k \<in> fst ` set sd. k \<in> fst ` set sensorStandards"
      and all100: "\<forall>v \<in> snd ` set sd. v = 100"
  shows "status (assessSensorCredibility sd) = ''suspicious''"
proof -
  have notZero: "\<not> list_all (\<lambda>val. val = 0 \<or> val = 0) (map snd sd)"
    using nonempty all100 by (cases sd) auto
  have first: "find (\<lambda>k. map_of sd k = Some 100) (map fst sd) = Some (fst (hd sd))"
    using nonempty all100 by (rule find_first_key)
  have "fst (hd sd) \<in> fst ` set sensorStandards"
    using nonempty known by simp
  then obtain s where own: "standardOf (fst (hd sd)) = Own s"
    using standardOf_own by blast
  have allMax: "list_all (\<lambda>val.
            let key = find (\<lambda>k. map_of sd k = Some val) (map fst sd);
                standard = (case key of None \<Rightarrow> standardOf ''undefined''
                                      | Some k \<Rightarrow> standardOf k)
            in truthy standard \<and> val = 100) (map snd sd)"
    unfolding list_all_iff
  proof
    fix val assume "val \<in> set (map snd sd)"
    then have "val = 100" using all100 by auto
    then show "let key = find (\<lambda>k. map_of sd k = Some val) (map fst sd);
                standard = (case key of None \<Rightarrow> standardOf ''undefined''
                                      | Some k \<Rightarrow> standardOf k)
            in truthy standard \<and> val = 100"
      by (simp add: first own truthy_def)
  qed
  show ?thesis
    using notZero allMax by (simp add: assessSensorCredibility_def)
qed

theorem all_100_known_sensors_suspicious_witness:
  "[(''nitrogen'', 100), (''ph'', 100 :: real)] \<noteq> []
   \<and> status (assessSensorCredibility [(''nitrogen'', 100), (''ph'', 100)]) = ''suspicious''"
  using all_100_known_sensors_suspicious [of "[(''nitrogen'', 100), (''ph'', 100)]"]
  by (simp add: sensorStandards_def)

text \<open>
  C2. For every readings map in which every supplied value equals exactly 0, and any
  vision result, the status of the assessment is \<open>malfunctioning\<close>, and the list that
  \<open>generateActionableRecommendations\<close> returns is exactly the action
  CHECK SENSOR CONNECTIONS at priority 1, preceded by the action ISOLATE PLANT at
  priority 1 if and only if the emergency level is \<open>high\<close>. No nutrient, moisture or
  pH recommendation is in the list. This holds for every diagnosis and emergency level
  passed to the function, and so for those that \<open>analyzeSituation\<close> passes.
\<close>

theorem all_zero_malfunctioning:
  assumes "\<forall>v \<in> snd ` set sd. v = 0"
  shows "status (assessSensorCredibility sd) = ''malfunctioning''
     \<and> status (sensorAssessment (analyzeSituation ai sd)) = ''malfunctioning''
     \<and> map (\<lambda>r. (action r, priority r))
          (generateActionableRecommendations d sd (assessSensorCredibility sd) el) =
           (if level el = ''high'' then [(''ISOLATE PLANT'', 1)] else [])
           @ [(''CHECK SENSOR CONNECTIONS'', 1)]
     \<and> map (\<lambda>r. (action r, priority r)) (recommendations (analyzeSituation ai sd)) =
           (if level (emergencyLevel (analyzeSituation ai sd)) = ''high''
            then [(''ISOLATE PLANT'', 1)] else [])
           @ [(''CHECK SENSOR CONNECTIONS'', 1)]"
proof -
  have m: "status (assessSensorCredibility sd) = ''malfunctioning''"
    using assms by (rule status_all_zero)
  show ?thesis
    unfolding analyze_recommendations analyze_status
    using m recommendations_malfunctioning [OF m] by blast
qed

theorem all_zero_malfunctioning_witness:
  "snd ` set [(''nitrogen'', 0 :: real), (''moisture'', 0)] = {0}
   \<and> status (assessSensorCredibility [(''nitrogen'', 0), (''moisture'', 0)]) = ''malfunctioning''
   \<and> map (\<lambda>r. (action r, priority r))
        (recommendations (analyzeSituation
           \<lparr>prediction = ''diseased'', confidence = 0.9, possible_issues = None\<rparr>
           [(''nitrogen'', 0), (''moisture'', 0)]))
       = [(''ISOLATE PLANT'', 1), (''CHECK SENSOR CONNECTIONS'', 1)]"
  using all_zero_malfunctioning [of "[(''nitrogen'', 0), (''moisture'', 0)]"
      "\<lparr>prediction = ''diseased'', confidence = 0.9, possible_issues = None\<rparr>"]
  by (simp add: analyze_emergencyLevel analyze_diagnosis analyze_calculatedNPK
      generateIntelligentDiagnosis_def agreementDiagnosis_def determineEmergencyLevel_def
      evaluate_standards)

text \<open>
  C3, as stated: for every readings map in which no supplied value falls outside the
  interval of its own standard, the issues list is empty and the status is
  \<open>credible\<close>. The status part fails: a reading 0 of a sensor without a standard is
  not outside any interval, and the all-zero check, which comes first, assesses the
  map as \<open>malfunctioning\<close>.
\<close>

theorem in_range_all_zero_malfunctioning:
  "issues (checkSensorValidity [(''humidity'', 0)]) = []
   \<and> status (assessSensorCredibility [(''humidity'', 0)]) = ''malfunctioning''"
  by (simp add: assessSensorCredibility_def evaluate_standards)

text \<open>
  C3, amended: for every readings map in which no supplied value falls outside the
  interval of its own standard, the issues list (of \<open>checkSensorValidity\<close> and of the
  analysis) is empty; the status is \<open>credible\<close> whenever, in addition, some supplied
  value is not 0 and some supplied value is not 100.
\<close>

theorem in_range_no_issues_credible:
  assumes "\<forall>e \<in> set sd. \<forall>s. standardOf (fst e) = Own s
             \<longrightarrow> min_std s \<le> snd e \<and> snd e \<le> max_std s"
  shows "issues (checkSensorValidity sd) = []
     \<and> issues_report (sensorAssessment (analyzeSituation ai sd)) = []
     \<and> ((\<exists>v \<in> snd ` set sd. v \<noteq> 0) \<and> (\<exists>v \<in> snd ` set sd. v \<noteq> 100)
          \<longrightarrow> status (assessSensorCredibility sd) = ''credible'')"
proof -
  have i: "issues (checkSensorValidity sd) = []"
    using assms by (rule issues_in_range)
  have "status (assessSensorCredibility sd) = ''credible''"
    if z: "\<exists>v \<in> snd ` set sd. v \<noteq> 0" and m: "\<exists>v \<in> snd ` set sd. v \<noteq> 100"
  proof -
    have a: "\<not> list_all (\<lambda>val. val = 0 \<or> val = 0) (map snd sd)"
      using z by (auto simp add: list_all_iff)
    have b: "\<not> list_all (\<lambda>val.
            let key = find (\<lambda>k. map_of sd k = Some val) (map fst sd);
                standard = (case key of None \<Rightarrow> standardOf ''undefined''
                                      | Some k \<Rightarrow> standardOf k)
            in truthy standard \<and> val = 100) (map snd sd)"
      using m by (auto simp add: list_all_iff Let_def)
    have c: "\<not> hasIssues (checkSensorValidity sd)"
      using i by (simp add: hasIssues_checkSensorValidity)
    show ?thesis
      using a b c by (simp add: assessSensorCredibility_def Let_def)
  qed
  with i show ?thesis
    by (simp add: analyze_issues)
qed

theorem in_range_no_issues_credible_witness:
  "issues (checkSensorValidity [(''nitrogen'', 60), (''ph'', 7), (''lux'', 300)]) = []
   \<and> status (assessSensorCredibility [(''nitrogen'', 60), (''ph'', 7), (''lux'', 300)])
       = ''credible''"
  using in_range_no_issues_credible [of "[(''nitrogen'', 60), (''ph'', 7), (''lux'', 300)]"]
  by (simp add: standardOf_def sensorStandards_def objectPrototypeKeys_def)

text \<open>
  C4. For the prediction \<open>healthy\<close> and every readings map that yields at least one
  out-of-range issue, \<open>generateIntelligentDiagnosis\<close> returns the verdict
  SENSOR MALFUNCTION with \<open>requiresImmediateAction\<close> false when the status of the
  sensor assessment is \<open>malfunctioning\<close>, and otherwise the verdict EARLY WARNING with
  \<open>requiresImmediateAction\<close> true. The agreement rules come first: for such readings
  and any other prediction, a result of the agreement rules is the result returned,
  whatever the status.
\<close>

theorem healthy_with_issues_diagnosis:
  assumes "issues (checkSensorValidity sd) \<noteq> []"
  shows "verdict (generateIntelligentDiagnosis ''healthy'' c sd sa est)
           = (if status sa = ''malfunctioning'' then ''SENSOR MALFUNCTION''
              else ''EARLY WARNING'')
       \<and> requiresImmediateAction (generateIntelligentDiagnosis ''healthy'' c sd sa est)
           = (status sa \<noteq> ''malfunctioning'')
       \<and> (\<forall>p d. p \<noteq> ''healthy'' \<and> agreementDiagnosis p c sd est = Some d
             \<longrightarrow> generateIntelligentDiagnosis p c sd sa est = d)"
  using assms
  by (simp add: generateIntelligentDiagnosis_def hasIssues_checkSensorValidity Let_def)

theorem healthy_with_issues_diagnosis_witness:
  "issues (checkSensorValidity [(''moisture'', 10)]) \<noteq> []
   \<and> verdict (generateIntelligentDiagnosis ''healthy'' 0.9 [(''moisture'', 10)]
        (assessSensorCredibility [(''moisture'', 10)]) None) = ''EARLY WARNING''
   \<and> requiresImmediateAction (generateIntelligentDiagnosis ''healthy'' 0.9 [(''moisture'', 10)]
        (assessSensorCredibility [(''moisture'', 10)]) None)
   \<and> verdict (generateIntelligentDiagnosis ''healthy'' 0.9 [(''moisture'', 0)]
        (assessSensorCredibility [(''moisture'', 0)]) None) = ''SENSOR MALFUNCTION''"
  using healthy_with_issues_diagnosis [of "[(''moisture'', 10)]" "0.9"
      "assessSensorCredibility [(''moisture'', 10)]" None]
    healthy_with_issues_diagnosis [of "[(''moisture'', 0)]" "0.9"
      "assessSensorCredibility [(''moisture'', 0)]" None]
  by (simp add: assessSensorCredibility_def truthy_def evaluate_standards)

text \<open>
  C5. For every diagnosis and sensor assessment, \<open>determineEmergencyLevel\<close> returns
  the level \<open>high\<close> exactly when the verdict contains DISEASE or
  \<open>requiresImmediateAction\<close> is true; otherwise \<open>medium\<close> exactly when the status is
  \<open>malfunctioning\<close> or the verdict contains WARNING; otherwise \<open>low\<close>. Each level has
  its fixed colour, icon and message: high is red with the siren, medium is orange
  with the warning sign, low is green with the check mark. (Containment is the
  contiguous-substring relation \<open>sublist\<close> of the library.)
\<close>

theorem determineEmergencyLevel_cases:
  "level (determineEmergencyLevel d sa) =
     (if sublist ''DISEASE'' (verdict d) \<or> requiresImmediateAction d then ''high''
      else if status sa = ''malfunctioning'' \<or> sublist ''WARNING'' (verdict d) then ''medium''
      else ''low'')
   \<and> (color (determineEmergencyLevel d sa), icon_level (determineEmergencyLevel d sa),
        message_level (determineEmergencyLevel d sa)) =
     (if level (determineEmergencyLevel d sa) = ''high''
        then (''red'', Siren, ''IMMEDIATE ACTION REQUIRED'')
      else if level (determineEmergencyLevel d sa) = ''medium''
        then (''orange'', WarningSign, ''ATTENTION NEEDED'')
      else (''green'', CheckMark, ''MONITOR REGULARLY''))"
  by (simp add: determineEmergencyLevel_def includes_str_sublist)

text \<open>
  C6. For every diagnosis, readings map, sensor assessment and emergency level, the
  list that \<open>generateActionableRecommendations\<close> returns is sorted non-decreasing by
  priority, and the recommendations of any one priority appear in the order in which
  they were pushed.
\<close>

theorem recommendations_sorted_stable:
  "sorted (map priority (generateActionableRecommendations d sd sa el))
   \<and> (\<forall>p. filter (\<lambda>r. priority r = p) (generateActionableRecommendations d sd sa el)
          = filter (\<lambda>r. priority r = p) (pushedRecommendations d sd sa el))"
proof (cases "status sa = ''malfunctioning''")
  case True
  then have "sorted (map priority (pushedRecommendations d sd sa el))"
    by (simp add: pushed_malfunctioning_priorities)
  with True show ?thesis
    by (simp add: generateActionableRecommendations_def)
next
  case False
  then show ?thesis
    by (simp add: generateActionableRecommendations_def array_sort_sort_key sort_key_stable)
qed

text \<open>
  C7, as stated: for all numbers \<open>ec\<close> and \<open>ph\<close>, \<open>calculateNPKFromECpH\<close> returns
  the three clamped sums and every component lies between 0 and 100. The code computes
  on doubles and does not do this. At the finite inputs \<open>ec = 2 ^ 1023\<close> and
  \<open>ph = - 2 ^ 1023\<close> the two products overflow to opposite infinities, their sum is
  \<^verbatim>\<open>NaN\<close>, and \<^verbatim>\<open>Math.max\<close> and \<^verbatim>\<open>Math.min\<close> hand \<^verbatim>\<open>NaN\<close> on. At the doubles
  next to 1.16 and 7.1 the code returns the double below 40 for nitrogen, where the
  exact sum is another value.
\<close>

theorem calculateNPKFromECpH_NaN:
  "nitrogen (calculateNPKFromECpH (Finite (2 ^ 1023)) (Finite (- (2 ^ 1023)))) = NaN
   \<and> nitrogen (calculateNPKFromECpH (Finite (5224175567749775 / 2 ^ 52))
        (Finite (3996944669291315 / 2 ^ 49))) = Finite (40 - 1 / 2 ^ 47)
   \<and> clamp (5224175567749775 / 2 ^ 52 * 25 + (3996944669291315 / 2 ^ 49 - 6.0) * 10)
        = 40 - 25 / 2 ^ 52"
proof (intro conjI)
  have a: "js_mul (Finite (2 ^ 1023)) (Finite 25) = PosInfinity"
    by (simp add: js_mul_def roundToDouble_def)
  have b: "js_sub (Finite (- (2 ^ 1023))) (Finite 6.0) = Finite (- (2 ^ 1023))"
    using roundToDouble_huge by (simp add: js_sub_def js_add_def)
  have c: "js_mul (Finite (- (2 ^ 1023))) (Finite 10) = NegInfinity"
    by (simp add: js_mul_def roundToDouble_def)
  show "nitrogen (calculateNPKFromECpH (Finite (2 ^ 1023)) (Finite (- (2 ^ 1023)))) = NaN"
    unfolding calculateNPKFromECpH_def
    by (simp only: npk.simps a b c) (simp add: js_add_def Math_max_def Math_min_def)
  show "nitrogen (calculateNPKFromECpH (Finite (5224175567749775 / 2 ^ 52))
        (Finite (3996944669291315 / 2 ^ 49))) = Finite (40 - 1 / 2 ^ 47)"
    by (simp add: calculateNPKFromECpH_def evaluate_number)
  show "clamp (5224175567749775 / 2 ^ 52 * 25 + (3996944669291315 / 2 ^ 49 - 6.0) * 10)
        = 40 - 25 / 2 ^ 52"
    by (simp add: clamp_def)
qed

text \<open>
  C7, amended: for all JavaScript numbers \<open>ec\<close> and \<open>ph\<close>, \<open>calculateNPKFromECpH\<close>
  returns nitrogen = clamp(ec * 25 + (ph - 6.0) * 10),
  phosphorus = clamp(ec * 15 + (7.0 - |7.0 - ph|) * 15) and
  potassium = clamp(ec * 20 + (ph - 6.5) * 12), each operation in double arithmetic,
  where clamp bounds a value to the interval from 0 to 100 and keeps \<^verbatim>\<open>NaN\<close>. Hence
  each component is \<^verbatim>\<open>NaN\<close> or lies between 0 and 100; it lies between 0 and 100
  whenever \<open>ec\<close> and \<open>ph\<close> are finite and \<open>|ec| \<le> 10 ^ 300\<close>.
\<close>

theorem calculateNPKFromECpH_clamped:
  "nitrogen (calculateNPKFromECpH ec ph)
     = clampNumber (js_add (js_mul ec (Finite 25)) (js_mul (js_sub ph (Finite 6.0)) (Finite 10)))
   \<and> phosphorus (calculateNPKFromECpH ec ph)
     = clampNumber (js_add (js_mul ec (Finite 15))
         (js_mul (js_sub (Finite 7.0) (Math_abs (js_sub (Finite 7.0) ph))) (Finite 15)))
   \<and> potassium (calculateNPKFromECpH ec ph)
     = clampNumber (js_add (js_mul ec (Finite 20)) (js_mul (js_sub ph (Finite 6.5)) (Finite 12)))
   \<and> (nitrogen (calculateNPKFromECpH ec ph) = NaN
        \<or> withinRange (nitrogen (calculateNPKFromECpH ec ph)))
   \<and> (phosphorus (calculateNPKFromECpH ec ph) = NaN
        \<or> withinRange (phosphorus (calculateNPKFromECpH ec ph)))
   \<and> (potassium (calculateNPKFromECpH ec ph) = NaN
        \<or> withinRange (potassium (calculateNPKFromECpH ec ph)))
   \<and> (\<forall>e p. ec = Finite e \<and> ph = Finite p \<and> \<bar>e\<bar> \<le> 10 ^ 300 \<longrightarrow>
         withinRange (nitrogen (calculateNPKFromECpH ec ph))
         \<and> withinRange (phosphorus (calculateNPKFromECpH ec ph))
         \<and> withinRange (potassium (calculateNPKFromECpH ec ph)))"
proof (intro conjI allI impI)
  fix e p
  assume "ec = Finite e \<and> ph = Finite p \<and> \<bar>e\<bar> \<le> 10 ^ 300"
  then have ec: "ec = Finite e" and ph: "ph = Finite p" and small: "\<bar>e\<bar> \<le> 10 ^ 300"
    by simp_all
  from estimate_withinRange [OF small, of p]
  show "withinRange (nitrogen (calculateNPKFromECpH ec ph))"
    and "withinRange (phosphorus (calculateNPKFromECpH ec ph))"
    and "withinRange (potassium (calculateNPKFromECpH ec ph))"
    unfolding ec ph by simp_all
qed (simp_all only: nitrogen_clampNumber phosphorus_clampNumber potassium_clampNumber
      clampNumber_range)

theorem calculateNPKFromECpH_clamped_witness:
  "\<bar>2 :: real\<bar> \<le> 10 ^ 300
   \<and> withinRange (nitrogen (calculateNPKFromECpH (Finite 2) (Finite 7)))
   \<and> calculateNPKFromECpH (Finite 2) (Finite 7)
       = \<lparr>nitrogen = Finite 60, phosphorus = Finite 100, potassium = Finite 46\<rparr>"
  using calculateNPKFromECpH_clamped [of "Finite 2" "Finite 7"]
  by (simp add: calculateNPKFromECpH_def evaluate_number)

text \<open>
  C8. For every vision result and every readings map, with sensor keys missing, extra
  or partial, \<open>analyzeSituation\<close> returns its analysis. The source has no
  \<^verbatim>\<open>throw\<close>, and each member read of a value that can be \<^verbatim>\<open>undefined\<close> is guarded,
  so the function is total and has no error value. What it returns in the three
  situations: when \<open>ec\<close> or \<open>ph\<close> is missing, \<open>calculatedNPK\<close> is null; every reported
  issue is about a supplied reading of a sensor of the standards table, so that
  missing and unknown sensors are skipped; and a prediction outside the three classes
  together with sensor issues gives the verdict INCONCLUSIVE.
\<close>

theorem analyzeSituation_partial_input:
  "(map_of sd ''ec'' = None \<or> map_of sd ''ph'' = None
      \<longrightarrow> calculatedNPK (sensorAssessment (analyzeSituation ai sd)) = None)
   \<and> (\<forall>i \<in> set (issues_report (sensorAssessment (analyzeSituation ai sd))).
        (sensor i, value_issue i) \<in> set sd \<and> (\<exists>s. standardOf (sensor i) = Own s))
   \<and> (prediction ai \<noteq> ''healthy'' \<and> prediction ai \<noteq> ''nutrient_deficient''
        \<and> prediction ai \<noteq> ''diseased'' \<and> issues (checkSensorValidity sd) \<noteq> []
      \<longrightarrow> verdict (intelligentDiagnosis (analyzeSituation ai sd)) = ''INCONCLUSIVE'')"
proof (intro conjI)
  show "map_of sd ''ec'' = None \<or> map_of sd ''ph'' = None
      \<longrightarrow> calculatedNPK (sensorAssessment (analyzeSituation ai sd)) = None"
    by (auto simp add: analyze_calculatedNPK split: option.splits)
  show "\<forall>i \<in> set (issues_report (sensorAssessment (analyzeSituation ai sd))).
        (sensor i, value_issue i) \<in> set sd \<and> (\<exists>s. standardOf (sensor i) = Own s)"
    unfolding analyze_issues by (blast dest: issue_from_reading)
  show "prediction ai \<noteq> ''healthy'' \<and> prediction ai \<noteq> ''nutrient_deficient''
        \<and> prediction ai \<noteq> ''diseased'' \<and> issues (checkSensorValidity sd) \<noteq> []
      \<longrightarrow> verdict (intelligentDiagnosis (analyzeSituation ai sd)) = ''INCONCLUSIVE''"
    unfolding analyze_diagnosis by (blast intro: unmatched_inconclusive)
qed

theorem analyzeSituation_partial_input_witness:
  "calculatedNPK (sensorAssessment (analyzeSituation
       \<lparr>prediction = ''wilted'', confidence = 0.5, possible_issues = None\<rparr>
       [(''moisture'', 10), (''lux'', 300), (''ec'', 2)])) = None
   \<and> map sensor (issues_report (sensorAssessment (analyzeSituation
       \<lparr>prediction = ''wilted'', confidence = 0.5, possible_issues = None\<rparr>
       [(''moisture'', 10), (''lux'', 300), (''ec'', 2)]))) = [''moisture'']
   \<and> verdict (intelligentDiagnosis (analyzeSituation
       \<lparr>prediction = ''wilted'', confidence = 0.5, possible_issues = None\<rparr>
       [(''moisture'', 10), (''lux'', 300), (''ec'', 2)])) = ''INCONCLUSIVE''"
  using analyzeSituation_partial_input [of "[(''moisture'', 10), (''lux'', 300), (''ec'', 2)]"
      "\<lparr>prediction = ''wilted'', confidence = 0.5, possible_issues = None\<rparr>"]
  by (simp add: analyze_issues evaluate_standards)

text \<open>
  C9. For every prediction among \<open>healthy\<close>, \<open>nutrient_deficient\<close> and \<open>diseased\<close>,
  and every readings map, \<open>generateIntelligentDiagnosis\<close> never returns the verdict
  INCONCLUSIVE: the fallback is not reached.
\<close>

theorem known_prediction_conclusive:
  assumes "p = ''healthy'' \<or> p = ''nutrient_deficient'' \<or> p = ''diseased''"
  shows "verdict (generateIntelligentDiagnosis p c sd sa est) \<noteq> ''INCONCLUSIVE''"
  using assms
  by (auto simp add: generateIntelligentDiagnosis_def agreementDiagnosis_def Let_def)

theorem known_prediction_conclusive_witness:
  "verdict (generateIntelligentDiagnosis ''diseased'' 0.8 [(''nitrogen'', 60)]
      (assessSensorCredibility [(''nitrogen'', 60)]) None) \<noteq> ''INCONCLUSIVE''
   \<and> verdict (generateIntelligentDiagnosis ''diseased'' 0.8 [(''nitrogen'', 60)]
      (assessSensorCredibility [(''nitrogen'', 60)]) None) = ''VISUAL ISSUE DETECTED''"
  using known_prediction_conclusive [of "''diseased''" "0.8" "[(''nitrogen'', 60)]"
      "assessSensorCredibility [(''nitrogen'', 60)]" None]
  by (simp add: generateIntelligentDiagnosis_def agreementDiagnosis_def evaluate_standards)

text \<open>
  C10. Whenever \<open>generateIntelligentDiagnosis\<close> returns the verdict EARLY WARNING,
  the diagnosis has \<open>requiresImmediateAction\<close> true and \<open>determineEmergencyLevel\<close>
  returns the level \<open>high\<close>, not \<open>medium\<close>. For a diagnosis that the engine produces,
  the level \<open>medium\<close> is returned only for the status \<open>malfunctioning\<close>: the clause on
  WARNING in the verdict never decides.
\<close>

theorem early_warning_is_high:
  "(verdict (generateIntelligentDiagnosis p c sd sa est) = ''EARLY WARNING'' \<longrightarrow>
      requiresImmediateAction (generateIntelligentDiagnosis p c sd sa est)
      \<and> level (determineEmergencyLevel (generateIntelligentDiagnosis p c sd sa est) sa')
          = ''high'')
   \<and> (level (determineEmergencyLevel (generateIntelligentDiagnosis p c sd sa est) sa')
        = ''medium'' \<longrightarrow> status sa' = ''malfunctioning'')"
  using early_warning_requires_action [of p c sd sa est]
    warning_requires_action [of p c sd sa est]
  by (auto simp add: determineEmergencyLevel_def split: if_splits)

theorem early_warning_is_high_witness:
  "verdict (generateIntelligentDiagnosis ''healthy'' 0.9 [(''moisture'', 10)]
      (assessSensorCredibility [(''moisture'', 10)]) None) = ''EARLY WARNING''
   \<and> level (determineEmergencyLevel
        (generateIntelligentDiagnosis ''healthy'' 0.9 [(''moisture'', 10)]
           (assessSensorCredibility [(''moisture'', 10)]) None)
        (assessSensorCredibility [(''moisture'', 10)])) = ''high''
   \<and> status (assessSensorCredibility [(''moisture'', 0)]) = ''malfunctioning''
   \<and> level (determineEmergencyLevel
        (generateIntelligentDiagnosis ''healthy'' 0.9 [(''moisture'', 0)]
           (assessSensorCredibility [(''moisture'', 0)]) None)
        (assessSensorCredibility [(''moisture'', 0)])) = ''medium''"
  using early_warning_is_high [of "''healthy''" "0.9" "[(''moisture'', 10)]"
      "assessSensorCredibility [(''moisture'', 10)]" None
      "assessSensorCredibility [(''moisture'', 10)]"]
    early_warning_is_high [of "''healthy''" "0.9" "[(''moisture'', 0)]"
      "assessSensorCredibility [(''moisture'', 0)]" None
      "assessSensorCredibility [(''moisture'', 0)]"]
  by (simp add: generateIntelligentDiagnosis_def agreementDiagnosis_def
      determineEmergencyLevel_def assessSensorCredibility_def truthy_def evaluate_standards)

end
